theory Spec2Isabelle
  imports Main "HOL-Library.Word"
begin

section \<open>Data model of \<open>AIAssistantApp\<close> (src/main.py)\<close>

text \<open>
  A screenshot is a Python \<open>bytes\<close> object, a prompt is a \<open>dict\<close> with string keys and
  values (an association list here: \<open>map_of\<close> is the lookup, the empty list is the falsy
  empty dict). A Python \<open>str\<close> is a \<open>string\<close>; a character outside ASCII stands as its
  UTF-8 bytes, so that \<open>startswith\<close> is \<open>prefix\<close> on the bytes (UTF-8 is a prefix code).
  An exception is represented by its \<open>str(e)\<close> and by whether it is an instance of
  \<open>Exception\<close>, which the \<open>except Exception\<close> clauses of main.py catch, or of
  \<open>BaseException\<close> only (KeyboardInterrupt, SystemExit, GeneratorExit,
  asyncio.CancelledError), which they let pass.
\<close>

type_synonym png = "8 word list"
type_synonym prompt = "(string \<times> string) list"

datatype exn = Exception string | BaseException string

fun str_of :: "exn \<Rightarrow> string" where
  "str_of (Exception m) = m"
| "str_of (BaseException m) = m"

fun caught :: "exn \<Rightarrow> bool" where
  "caught (Exception m) = True"
| "caught (BaseException m) = False"

datatype level = DEFAULT | WARNING | ERROR

text \<open>
  \<open>DEFAULT\<close> is the level of an \<open>add_log\<close> call that passes none.
  One constructor for each \<open>log_manager.add_log\<close> message of the modelled methods. The
  arguments are the values the f-string of the source formats (a count and a byte total
  where the source prints a count and megabytes, the text where it prints a length or a
  preview of it, the looked-up name or \<open>None\<close> where it prints \<open>prompt.get('name', default)\<close>).
  \<open>Msg\<close> is a message that is itself a value of the program.
\<close>

datatype log_msg =
    Msg string
  | HistoryEmptyNothingToClear
  | HistoryClearedByUser nat nat
  | HistoryCleanedUp nat nat
  | MaxHistoryReached nat
  | SavedToHistory nat nat
  | SaveScreenshotFailed string
  | SmartScreenshotStartFailed string
  | SmartScreenshotDone
  | SmartScreenshotOnlyDone
  | ScreenshotCancelled
  | HistoryCount nat
  | CurrentScreenshotSize nat
  | UsingProvider string
  | PreparingToSend nat string nat
  | ProcessPromptFailed string
  | TriggerPrompt string
  | CurrentCaptureDone
  | NoPromptsConfigured
  | SendingPrompt int "string option"
  | PromptIndexReset "string option"
  | ApiResponseProcessing string
  | CodeCopied string
  | ClipboardCopyFailed
  | NoCodeBlocksFound
  | ResponsePreview string
  | ResponseShown
  | StreamingStarted
  | ChunkReceived nat bool
  | StreamComplete string
  | ChunkAppended string
  | StreamFailed string
  | CompleteResponse string
  | ToastFailed string
  | ProviderSwitched string
  | PromptSwitched int "string option"
  | PromptIndexOutOfRange int

datatype signal =
    TriggerScreenshot bool
  | ToggleOverlay
  | ToggleProvider
  | ApiResponse string

datatype label = LabelNoPrompts | LabelCurrentPrompt int "string option"

datatype toast = ToastProvider string | ToastPrompt int "string option"

text \<open>
  Everything a method does to its collaborators, in program order: log lines, Qt signals
  emitted, threads and timers started, calls to the AI factory and its service, the screen
  capture, the selector, the clipboard helpers, the markdown renderer, the overlay and
  the widgets.
\<close>

datatype effect =
    Log level log_msg
  | Emit signal
  | StartThread "png list" prompt string
  | ScheduleCleanup
  | GcCollect
  | GetService string
  | AnalyzeImages "png list" string
  | CaptureScreen
  | SelectorNew
  | SelectorConnect
  | SelectorStartCapture
  | SelectorClose
  | ExtractCodeBlocks string
  | CopyToClipboard string
  | MarkdownRender string
  | OverlayHandleResponse string
  | OverlayStartStreaming
  | OverlayFinishStreaming
  | OverlayChunk string
  | SetPromptLabel label
  | ToastShow toast
  | SetChecked string

text \<open>
  The configuration collaborator holds the three keys these methods read and write;
  \<open>None\<close> is an absent key, for which \<open>get\<close> returns the caller's default.
\<close>

record config =
  cfg_prompts :: "prompt list option"
  cfg_current_prompt_index :: "int option"
  cfg_provider :: "string option"

record app =
  screenshot_history :: "png list"
  pending_prompt :: "prompt option"
  current_prompt_index :: int
  screenshot_selector :: bool
  config_manager :: config
  trace :: "effect list"

text \<open>
  The collaborators and constants that main.py imports from modules outside src/
  (\<open>ai_assistant.utils.constants\<close>, \<open>ai_assistant.utils.screenshot\<close>,
  \<open>ai_assistant.services.ai\<close>, \<open>ai_assistant.ui.screenshot_selector\<close>,
  \<open>ai_assistant.ui.toast\<close>, \<open>markdown_it\<close>) are parameters. A collaborator that can
  raise returns a sum, \<open>Inl\<close> the exception, or the exception raised if any.
  \<open>selector_new\<close> is the exception raised by \<open>ScreenshotSelector()\<close>, \<open>selector_connect\<close>
  the one raised by connecting its two signals, \<open>selector_start_capture\<close> the one raised
  by \<open>start_capture()\<close>, \<open>toast_show\<close> the one raised by \<open>Toast.show_message\<close>,
  \<open>overlay_handle_response\<close> the one raised by \<open>self.overlay.handle_response\<close> on a text.
  The overlay exists (it is created before any hotkey is bound). The log manager, the
  configuration manager, the Qt signals and timers, the streaming calls of the overlay,
  \<open>close()\<close> of the selector and starting a thread are taken not to raise.
\<close>

type_synonym service = "png list \<Rightarrow> string \<Rightarrow> exn + string option"

record env =
  MAX_SCREENSHOT_HISTORY :: nat
  use_selector :: bool
  capture_screen :: "exn + png"
  selector_new :: "exn option"
  selector_connect :: "exn option"
  selector_start_capture :: "exn option"
  get_service :: "string \<Rightarrow> exn + service"
  extract_code_blocks :: "string \<Rightarrow> exn + string"
  copy_to_clipboard :: "string \<Rightarrow> exn + bool"
  markdown_render :: "string \<Rightarrow> exn + string"
  toast_show :: "exn option"
  overlay_handle_response :: "string \<Rightarrow> exn option"
  provider_radios :: "string list"

definition perform :: "effect list \<Rightarrow> app \<Rightarrow> app" where
  "perform es s = s\<lparr>trace := trace s @ es\<rparr>"

definition get_prompts :: "config \<Rightarrow> prompt list" where
  "get_prompts cfg = (case cfg_prompts cfg of None \<Rightarrow> [] | Some ps \<Rightarrow> ps)"

definition get_provider :: "config \<Rightarrow> string" where
  "get_provider cfg = (case cfg_provider cfg of None \<Rightarrow> ''Gemini'' | Some p \<Rightarrow> p)"

definition init_app :: "config \<Rightarrow> app" where
  "init_app cfg =
     \<lparr>screenshot_history = [],
      pending_prompt = None,
      current_prompt_index = (case cfg_current_prompt_index cfg of None \<Rightarrow> 0 | Some i \<Rightarrow> i),
      screenshot_selector = False,
      config_manager = cfg,
      trace = []\<rparr>"

definition total_size :: "png list \<Rightarrow> nat" where
  "total_size imgs = sum_list (map length imgs)"

definition startswith :: "string \<Rightarrow> string \<Rightarrow> bool" where
  "startswith s p = (take (length p) s = p)"

text \<open>The string literals of the source that are data, as UTF-8.\<close>

definition error_prefix :: string where
  "error_prefix = [CHR 0xE9, CHR 0x94, CHR 0x99, CHR 0xE8, CHR 0xAF, CHR 0xAF, CHR '':'']"

definition api_exception_prefix :: string where
  "api_exception_prefix =
     [CHR ''A'', CHR ''P'', CHR ''I'', CHR 0xE8, CHR 0xB0, CHR 0x83, CHR 0xE7, CHR 0x94,
      CHR 0xA8, CHR 0xE5, CHR 0xBC, CHR 0x82, CHR 0xE5, CHR 0xB8, CHR 0xB8, CHR '':'', CHR '' '']"

definition no_response_text :: string where
  "no_response_text =
     [CHR ''A'', CHR ''P'', CHR ''I'', CHR 0xE8, CHR 0xB0, CHR 0x83, CHR 0xE7, CHR 0x94,
      CHR 0xA8, CHR 0xE5, CHR 0xA4, CHR 0xB1, CHR 0xE8, CHR 0xB4, CHR 0xA5, CHR 0xEF,
      CHR 0xBC, CHR 0x8C, CHR 0xE6, CHR 0x9C, CHR 0xAA, CHR 0xE8, CHR 0x8E, CHR 0xB7,
      CHR 0xE5, CHR 0xBE, CHR 0x97, CHR 0xE5, CHR 0x93, CHR 0x8D, CHR 0xE5, CHR 0xBA, CHR 0x94]"

definition handle_failed_prefix :: string where
  "handle_failed_prefix =
     [CHR 0xE5, CHR 0xA4, CHR 0x84, CHR 0xE7, CHR 0x90, CHR 0x86, CHR ''A'', CHR ''P'',
      CHR ''I'', CHR 0xE5, CHR 0x93, CHR 0x8D, CHR 0xE5, CHR 0xBA, CHR 0x94, CHR 0xE5,
      CHR 0xA4, CHR 0xB1, CHR 0xE8, CHR 0xB4, CHR 0xA5, CHR '':'', CHR '' '']"

definition red_paragraph :: "string \<Rightarrow> string" where
  "red_paragraph m =
     ''<p style='' @ [CHR 0x27] @ ''color: red;'' @ [CHR 0x27] @ ''>'' @ m @ ''</p>''"

definition key_error :: "string \<Rightarrow> exn" where
  "key_error k = Exception ([CHR 0x27] @ k @ [CHR 0x27])"

section \<open>The screenshot history\<close>

text \<open>
  \<open>save_screenshot_to_history\<close>: when the history is full the oldest entry is popped
  first. \<open>pop(0)\<close> on an empty list (possible only when the maximum is 0) raises
  IndexError, which the method's \<open>except\<close> logs; nothing is appended then.
\<close>

definition save_screenshot_to_history :: "env \<Rightarrow> app \<Rightarrow> png \<Rightarrow> app" where
  "save_screenshot_to_history e s png =
     (if length (screenshot_history s) \<ge> MAX_SCREENSHOT_HISTORY e then
        (case screenshot_history s of
           [] \<Rightarrow> perform [Log ERROR (SaveScreenshotFailed ''pop from empty list'')] s
         | removed # rest \<Rightarrow>
             (let h = rest @ [png] in
              perform [Log DEFAULT (MaxHistoryReached (MAX_SCREENSHOT_HISTORY e)),
                       Log DEFAULT (SavedToHistory (length h) (total_size h))]
                 (s\<lparr>screenshot_history := h\<rparr>)))
      else
        (let h = screenshot_history s @ [png] in
         perform [Log DEFAULT (SavedToHistory (length h) (total_size h))]
            (s\<lparr>screenshot_history := h\<rparr>)))"


text \<open>\<open>clear_screenshot_history\<close> (hotkey) and \<open>_cleanup_screenshot_history\<close> (timer).\<close>

definition clear_screenshot_history :: "app \<Rightarrow> app" where
  "clear_screenshot_history s =
     (if screenshot_history s = [] then perform [Log DEFAULT HistoryEmptyNothingToClear] s
      else
        perform [GcCollect,
                 Log DEFAULT (HistoryClearedByUser (length (screenshot_history s))
                             (total_size (screenshot_history s)))]
           (s\<lparr>screenshot_history := []\<rparr>))"

definition cleanup_screenshot_history :: "app \<Rightarrow> app" where
  "cleanup_screenshot_history s =
     (if screenshot_history s = [] then s
      else
        perform [GcCollect,
                 Log DEFAULT (HistoryCleanedUp (length (screenshot_history s))
                             (total_size (screenshot_history s)))]
           (s\<lparr>screenshot_history := []\<rparr>))"

section \<open>Dispatch\<close>

text \<open>
  A method that an exception can leave returns the exception, if any, next to the state
  it has reached.

  \<open>process_prompt_with_screenshot\<close> builds a new list from the history and the current
  capture, reads the provider from the configuration, and starts the worker thread
  (\<open>_start_async_api_request\<close>). Nothing in its \<open>try\<close> block raises here, so its
  \<open>except\<close> clause is no branch of the model.
\<close>

definition process_prompt_with_screenshot :: "app \<Rightarrow> png \<Rightarrow> prompt \<Rightarrow> app" where
  "process_prompt_with_screenshot s current_png prompt =
     (let all_images = screenshot_history s @ [current_png];
          provider = get_provider (config_manager s)
      in perform [Log DEFAULT (HistoryCount (length (screenshot_history s))),
                  Log DEFAULT (CurrentScreenshotSize (length current_png)),
                  Log DEFAULT (UsingProvider provider),
                  Log DEFAULT (PreparingToSend (length all_images) provider (total_size all_images)),
                  StartThread all_images prompt provider] s)"

text \<open>
  \<open>_async_api_worker\<close> runs on its own thread and touches the application only through
  the log, the response signal and the timer, so it is its list of effects, next to the
  exception that leaves it, if any. Its \<open>except Exception\<close> clause logs and emits the
  error text; an exception that is no \<open>Exception\<close> passes it. The \<open>finally\<close> clause
  schedules the cleanup on every path.
\<close>

definition failure_response :: "exn \<Rightarrow> string" where
  "failure_response x = error_prefix @ '' '' @ api_exception_prefix @ str_of x"

definition worker_failed :: "effect list \<Rightarrow> exn \<Rightarrow> exn option \<times> effect list" where
  "worker_failed calls x =
     (if caught x then
        (None,
         calls @ [Log ERROR (Msg (api_exception_prefix @ str_of x)),
                  Emit (ApiResponse (failure_response x)),
                  ScheduleCleanup])
      else (Some x, calls @ [ScheduleCleanup]))"

definition async_api_worker ::
  "env \<Rightarrow> png list \<Rightarrow> prompt \<Rightarrow> string \<Rightarrow> exn option \<times> effect list" where
  "async_api_worker e all_images prompt provider =
     (case get_service e provider of
        Inl x \<Rightarrow> worker_failed [GetService provider] x
      | Inr service \<Rightarrow>
          (case map_of prompt ''content'' of
             None \<Rightarrow> worker_failed [GetService provider] (key_error ''content'')
           | Some content \<Rightarrow>
               (case service all_images content of
                  Inl x \<Rightarrow>
                    worker_failed [GetService provider, AnalyzeImages all_images content] x
                | Inr md \<Rightarrow>
                    (None,
                     [GetService provider, AnalyzeImages all_images content,
                      Emit (ApiResponse (case md of
                                           None \<Rightarrow> no_response_text
                                         | Some m \<Rightarrow> if m \<noteq> [] then m else no_response_text)),
                      ScheduleCleanup]))))"

section \<open>Responses\<close>

text \<open>
  \<open>handle_api_response\<close>. An \<open>Exception\<close> raised in the \<open>try\<close> block goes to the \<open>except\<close>
  clause (\<open>response_failed\<close>), which logs it and shows it through
  \<open>overlay.handle_response\<close>; that call stands outside any \<open>try\<close>, so what it raises
  leaves the method, as does anything raised in the \<open>try\<close> block that is no \<open>Exception\<close>.
\<close>

definition response_failed :: "env \<Rightarrow> app \<Rightarrow> effect list \<Rightarrow> exn \<Rightarrow> exn option \<times> app" where
  "response_failed e s done x =
     (if caught x then
        (overlay_handle_response e (red_paragraph (handle_failed_prefix @ str_of x)),
         perform (done @ [Log ERROR (Msg (handle_failed_prefix @ str_of x)),
                          OverlayHandleResponse (red_paragraph (handle_failed_prefix @ str_of x))])
           s)
      else (Some x, perform done s))"

definition render_response :: "env \<Rightarrow> app \<Rightarrow> effect list \<Rightarrow> string \<Rightarrow> exn option \<times> app" where
  "render_response e s done response =
     (case markdown_render e response of
        Inl x \<Rightarrow> response_failed e s (done @ [MarkdownRender response]) x
      | Inr html \<Rightarrow>
          (case overlay_handle_response e html of
             Some x \<Rightarrow>
               response_failed e s
                 (done @ [MarkdownRender response, OverlayHandleResponse html]) x
           | None \<Rightarrow>
               (None,
                perform (done @ [MarkdownRender response, OverlayHandleResponse html,
                                 Log DEFAULT ResponseShown]) s)))"

definition handle_api_response :: "env \<Rightarrow> app \<Rightarrow> string \<Rightarrow> exn option \<times> app" where
  "handle_api_response e s response =
     (if startswith response error_prefix then
        (case overlay_handle_response e (red_paragraph response) of
           Some x \<Rightarrow>
             response_failed e s
               [Log ERROR (Msg response), OverlayHandleResponse (red_paragraph response)] x
         | None \<Rightarrow>
             (None,
              perform [Log ERROR (Msg response), OverlayHandleResponse (red_paragraph response)] s))
      else
        (case extract_code_blocks e response of
           Inl x \<Rightarrow>
             response_failed e s
               [Log DEFAULT (ApiResponseProcessing response), ExtractCodeBlocks response] x
         | Inr code_blocks \<Rightarrow>
             (if code_blocks \<noteq> [] then
                (case copy_to_clipboard e code_blocks of
                   Inl x \<Rightarrow>
                     response_failed e s
                       [Log DEFAULT (ApiResponseProcessing response), ExtractCodeBlocks response,
                        CopyToClipboard code_blocks] x
                 | Inr ok \<Rightarrow>
                     render_response e s
                       [Log DEFAULT (ApiResponseProcessing response), ExtractCodeBlocks response,
                        CopyToClipboard code_blocks,
                        (if ok then Log DEFAULT (CodeCopied code_blocks)
                         else Log WARNING ClipboardCopyFailed)]
                       response)
              else
                render_response e s
                  [Log DEFAULT (ApiResponseProcessing response), ExtractCodeBlocks response,
                   Log DEFAULT NoCodeBlocksFound, Log DEFAULT (ResponsePreview response)]
                  response)))"

text \<open>
  \<open>_process_complete_response\<close> only logs the length of the finished text; its docstring
  says that the code is not copied here any more.
\<close>

definition process_complete_response :: "app \<Rightarrow> string \<Rightarrow> app" where
  "process_complete_response s md_content = perform [Log DEFAULT (CompleteResponse md_content)] s"

text \<open>
  \<open>_handle_streaming_response\<close>. The stream yields pairs \<open>(chunk_text, is_complete)\<close>; an
  \<open>Inl\<close> item is the generator raising there. The loop leaves at the first complete item,
  whose text is not added. The \<open>except Exception\<close> clause renders what has been collected;
  the renderer or the overlay raising there is not caught, so the result carries the
  exception that leaves the method.
\<close>

type_synonym stream_item = "exn + string \<times> bool"

definition stream_failed :: "env \<Rightarrow> app \<Rightarrow> string \<Rightarrow> exn \<Rightarrow> exn option \<times> app" where
  "stream_failed e s full_response x =
     (if caught x then
        (let s1 = perform [OverlayFinishStreaming, Log ERROR (StreamFailed (str_of x))] s in
         if full_response \<noteq> [] then
           (case markdown_render e full_response of
              Inl y \<Rightarrow> (Some y, perform [MarkdownRender full_response] s1)
            | Inr html \<Rightarrow>
                (overlay_handle_response e html,
                 perform [MarkdownRender full_response, OverlayHandleResponse html] s1))
         else (None, s1))
      else (Some x, s))"

fun stream_loop :: "env \<Rightarrow> app \<Rightarrow> string \<Rightarrow> nat \<Rightarrow> stream_item list \<Rightarrow> exn option \<times> app" where
  "stream_loop e s full_response chunk_count [] = (None, s)"
| "stream_loop e s full_response chunk_count (Inl x # rest) = stream_failed e s full_response x"
| "stream_loop e s full_response chunk_count (Inr (chunk_text, is_complete) # rest) =
     (if is_complete then
        (None,
         process_complete_response
           (perform [Log DEFAULT (ChunkReceived (Suc chunk_count) is_complete),
                     Log DEFAULT (StreamComplete full_response),
                     OverlayFinishStreaming] s)
           full_response)
      else
        stream_loop e
          (perform [Log DEFAULT (ChunkReceived (Suc chunk_count) is_complete),
                    Log DEFAULT (ChunkAppended chunk_text),
                    OverlayChunk chunk_text] s)
          (full_response @ chunk_text) (Suc chunk_count) rest)"

definition handle_streaming_response :: "env \<Rightarrow> app \<Rightarrow> stream_item list \<Rightarrow> exn option \<times> app" where
  "handle_streaming_response e s response_stream =
     stream_loop e (perform [OverlayStartStreaming, Log DEFAULT StreamingStarted] s) [] 0
       response_stream"

section \<open>Capture requests\<close>

text \<open>
  \<open>trigger_prompt\<close> and \<open>capture_screenshot_only\<close> run on a hotkey thread; with the
  selector they record the request in \<open>pending_prompt\<close> and signal the main thread,
  without it they capture the screen themselves. \<open>prompt['name']\<close> raises KeyError for a
  prompt without a name.
\<close>

definition trigger_prompt :: "env \<Rightarrow> app \<Rightarrow> prompt \<Rightarrow> exn option \<times> app" where
  "trigger_prompt e s prompt =
     (case map_of prompt ''name'' of
        None \<Rightarrow> (None, perform [Log ERROR (ProcessPromptFailed (str_of (key_error ''name'')))] s)
      | Some name \<Rightarrow>
          (if use_selector e then
             (None,
              perform [Log DEFAULT (TriggerPrompt name), Emit (TriggerScreenshot True)]
                (s\<lparr>pending_prompt := Some prompt\<rparr>))
           else
             (case capture_screen e of
                Inl x \<Rightarrow>
                  (if caught x then
                     (None,
                      perform [Log DEFAULT (TriggerPrompt name), CaptureScreen,
                               Log ERROR (ProcessPromptFailed (str_of x))] s)
                   else (Some x, perform [Log DEFAULT (TriggerPrompt name), CaptureScreen] s))
              | Inr current_png \<Rightarrow>
                  (None,
                   process_prompt_with_screenshot
                     (perform [Log DEFAULT (TriggerPrompt name), CaptureScreen,
                               Log DEFAULT CurrentCaptureDone] s)
                     current_png prompt))))"

definition capture_screenshot_only :: "env \<Rightarrow> app \<Rightarrow> exn option \<times> app" where
  "capture_screenshot_only e s =
     (if use_selector e then
        (None, perform [Emit (TriggerScreenshot False)] (s\<lparr>pending_prompt := None\<rparr>))
      else
        (case capture_screen e of
           Inl x \<Rightarrow>
             (if caught x then
                (None, perform [CaptureScreen, Log ERROR (SaveScreenshotFailed (str_of x))] s)
              else (Some x, perform [CaptureScreen] s))
         | Inr png \<Rightarrow> (None, save_screenshot_to_history e (perform [CaptureScreen] s) png)))"

text \<open>
  The slots of the main thread. \<open>if self.pending_prompt\<close> is false for \<open>None\<close> and for
  the empty dict. In \<open>start_smart_screenshot\<close> and \<open>start_smart_screenshot_only\<close> the
  \<open>except Exception\<close> clause is the fallback; the fallback \<open>capture_screen()\<close> is called
  inside that clause, outside any \<open>try\<close>: an exception it raises leaves the method. The
  attribute \<open>screenshot_selector\<close> is assigned as soon as the constructor has returned.
\<close>

definition smart_fallback :: "env \<Rightarrow> app \<Rightarrow> exn \<Rightarrow> exn option \<times> app" where
  "smart_fallback e s x =
     (if caught x then
        (let s1 = perform [Log ERROR (SmartScreenshotStartFailed (str_of x))] s in
         case pending_prompt s1 of
           None \<Rightarrow> (None, s1)
         | Some prompt \<Rightarrow>
             (if prompt \<noteq> [] then
                (case capture_screen e of
                   Inl y \<Rightarrow> (Some y, perform [CaptureScreen] s1)
                 | Inr png \<Rightarrow>
                     (None,
                      process_prompt_with_screenshot (perform [CaptureScreen] s1) png prompt))
              else (None, s1)))
      else (Some x, s))"

definition only_fallback :: "env \<Rightarrow> app \<Rightarrow> exn \<Rightarrow> exn option \<times> app" where
  "only_fallback e s x =
     (if caught x then
        (let s1 = perform [Log ERROR (SmartScreenshotStartFailed (str_of x))] s in
         case capture_screen e of
           Inl y \<Rightarrow> (Some y, perform [CaptureScreen] s1)
         | Inr png \<Rightarrow> (None, save_screenshot_to_history e (perform [CaptureScreen] s1) png))
      else (Some x, s))"

text \<open>
  The \<open>try\<close> block of both methods: the constructor, the two connects, \<open>start_capture()\<close>.
  The result is the exception raised, if any, and the state reached.
\<close>

definition start_selector :: "env \<Rightarrow> app \<Rightarrow> exn option \<times> app" where
  "start_selector e s =
     (case selector_new e of
        Some x \<Rightarrow> (Some x, perform [SelectorNew] s)
      | None \<Rightarrow>
          (case selector_connect e of
             Some x \<Rightarrow>
               (Some x, perform [SelectorNew, SelectorConnect] (s\<lparr>screenshot_selector := True\<rparr>))
           | None \<Rightarrow>
               (selector_start_capture e,
                perform [SelectorNew, SelectorConnect, SelectorStartCapture]
                  (s\<lparr>screenshot_selector := True\<rparr>))))"

definition start_smart_screenshot :: "env \<Rightarrow> app \<Rightarrow> exn option \<times> app" where
  "start_smart_screenshot e s =
     (case start_selector e s of
        (None, s1) \<Rightarrow> (None, s1)
      | (Some x, s1) \<Rightarrow> smart_fallback e s1 x)"

definition start_smart_screenshot_only :: "env \<Rightarrow> app \<Rightarrow> exn option \<times> app" where
  "start_smart_screenshot_only e s =
     (case start_selector e s of
        (None, s1) \<Rightarrow> (None, s1)
      | (Some x, s1) \<Rightarrow> only_fallback e s1 x)"

definition handle_screenshot_in_main_thread :: "env \<Rightarrow> app \<Rightarrow> bool \<Rightarrow> exn option \<times> app" where
  "handle_screenshot_in_main_thread e s with_prompt =
     (if with_prompt then start_smart_screenshot e s else start_smart_screenshot_only e s)"

definition close_selector :: "app \<Rightarrow> app" where
  "close_selector s =
     (if screenshot_selector s then perform [SelectorClose] (s\<lparr>screenshot_selector := False\<rparr>)
      else s)"

definition on_screenshot_taken :: "app \<Rightarrow> png \<Rightarrow> app" where
  "on_screenshot_taken s png_data =
     (let s1 = close_selector (perform [Log DEFAULT SmartScreenshotDone] s) in
      case pending_prompt s1 of
        None \<Rightarrow> s1
      | Some prompt \<Rightarrow>
          (if prompt \<noteq> [] then
             (process_prompt_with_screenshot s1 png_data prompt)\<lparr>pending_prompt := None\<rparr>
           else s1))"

definition on_screenshot_cancelled :: "app \<Rightarrow> app" where
  "on_screenshot_cancelled s =
     (close_selector (perform [Log DEFAULT ScreenshotCancelled] s))\<lparr>pending_prompt := None\<rparr>"

definition on_screenshot_only_taken :: "env \<Rightarrow> app \<Rightarrow> png \<Rightarrow> app" where
  "on_screenshot_only_taken e s png_data =
     save_screenshot_to_history e
       (close_selector (perform [Log DEFAULT SmartScreenshotOnlyDone] s)) png_data"

section \<open>Prompt index and provider\<close>

definition index_in_range :: "int \<Rightarrow> prompt list \<Rightarrow> bool" where
  "index_in_range i prompts = (0 \<le> i \<and> i < int (length prompts))"

definition send_current_prompt :: "env \<Rightarrow> app \<Rightarrow> exn option \<times> app" where
  "send_current_prompt e s =
     (let prompts = get_prompts (config_manager s) in
      if prompts = [] then (None, perform [Log WARNING NoPromptsConfigured] s)
      else if index_in_range (current_prompt_index s) prompts then
        (let current_prompt = prompts ! nat (current_prompt_index s) in
         trigger_prompt e
           (perform [Log DEFAULT (SendingPrompt (current_prompt_index s + 1)
                                    (map_of current_prompt ''name''))] s)
           current_prompt)
      else
        (let current_prompt = prompts ! 0 in
         trigger_prompt e
           (perform [Log DEFAULT (PromptIndexReset (map_of current_prompt ''name''))]
              (s\<lparr>current_prompt_index := 0,
                 config_manager := (config_manager s)\<lparr>cfg_current_prompt_index := Some 0\<rparr>\<rparr>))
           current_prompt))"

definition update_current_prompt_display :: "app \<Rightarrow> app" where
  "update_current_prompt_display s =
     (let prompts = get_prompts (config_manager s) in
      if prompts = [] then perform [SetPromptLabel LabelNoPrompts] s
      else if index_in_range (current_prompt_index s) prompts then
        perform [SetPromptLabel
                   (LabelCurrentPrompt (current_prompt_index s + 1)
                      (map_of (prompts ! nat (current_prompt_index s)) ''name''))] s
      else
        (let prompt = prompts ! 0 in
         perform [SetPromptLabel
                    (if prompt \<noteq> [] then LabelCurrentPrompt 1 (map_of prompt ''name'')
                     else LabelNoPrompts)]
           (s\<lparr>current_prompt_index := 0\<rparr>)))"

text \<open>
  \<open>Toast.show_message\<close> is called in a \<open>try\<close> of its own whose \<open>except Exception\<close> logs a
  warning; an exception that is no \<open>Exception\<close> passes it and the outer clause.
\<close>

definition show_toast :: "env \<Rightarrow> app \<Rightarrow> toast \<Rightarrow> exn option \<times> app" where
  "show_toast e s t =
     (case toast_show e of
        None \<Rightarrow> (None, perform [ToastShow t] s)
      | Some x \<Rightarrow>
          (if caught x then (None, perform [ToastShow t, Log WARNING (ToastFailed (str_of x))] s)
           else (Some x, perform [ToastShow t] s)))"

text \<open>
  \<open>switch_prompt\<close> (hotkeys alt+1 to alt+9) is the only other writer of the index: it
  stores an index that is in range and refuses any other.
\<close>

definition switch_prompt :: "env \<Rightarrow> app \<Rightarrow> int \<Rightarrow> exn option \<times> app" where
  "switch_prompt e s index =
     (let prompts = get_prompts (config_manager s) in
      if index_in_range index prompts then
        (let prompt_name = map_of (prompts ! nat index) ''name'' in
         show_toast e
           (update_current_prompt_display
              (perform [Log DEFAULT (PromptSwitched (index + 1) prompt_name)]
                 (s\<lparr>current_prompt_index := index,
                    config_manager :=
                      (config_manager s)\<lparr>cfg_current_prompt_index := Some index\<rparr>\<rparr>)))
           (ToastPrompt (index + 1) prompt_name))
      else (None, perform [Log WARNING (PromptIndexOutOfRange (index + 1))] s))"

definition toggled :: "string \<Rightarrow> string" where
  "toggled current_provider = (if current_provider = ''Gemini'' then ''GPT'' else ''Gemini'')"

definition handle_toggle_provider :: "env \<Rightarrow> app \<Rightarrow> exn option \<times> app" where
  "handle_toggle_provider e s =
     (let new_provider = toggled (get_provider (config_manager s)) in
      case show_toast e
             (perform (if new_provider \<in> set (provider_radios e) then [SetChecked new_provider]
                       else [])
                (s\<lparr>config_manager := (config_manager s)\<lparr>cfg_provider := Some new_provider\<rparr>\<rparr>))
             (ToastProvider new_provider) of
        (None, s1) \<Rightarrow> (None, perform [Log DEFAULT (ProviderSwitched new_provider)] s1)
      | (Some x, s1) \<Rightarrow> (Some x, s1))"

section \<open>The event loop\<close>

text \<open>
  The hotkey callbacks bound in \<open>setup_hotkeys\<close>, the slots connected to the signals in
  \<open>__init__\<close>, the callbacks of the selector and the cleanup timer. A method that an
  exception leaves still has changed the state up to there. The collaborators may answer
  differently at each event; the constants are fixed.
\<close>

datatype event =
    HotkeySendPrompt
  | HotkeySwitchPrompt int
  | HotkeyScreenshotOnly
  | HotkeyClearScreenshots
  | SlotScreenshot bool
  | SlotToggleProvider
  | SlotApiResponse string
  | SelectorTaken png
  | SelectorOnlyTaken png
  | SelectorCancelled
  | TimerCleanup
  | RefreshPromptDisplay

fun step :: "env \<Rightarrow> app \<Rightarrow> event \<Rightarrow> app" where
  "step e s HotkeySendPrompt = snd (send_current_prompt e s)"
| "step e s (HotkeySwitchPrompt i) = snd (switch_prompt e s i)"
| "step e s HotkeyScreenshotOnly = snd (capture_screenshot_only e s)"
| "step e s HotkeyClearScreenshots = clear_screenshot_history s"
| "step e s (SlotScreenshot with_prompt) = snd (handle_screenshot_in_main_thread e s with_prompt)"
| "step e s SlotToggleProvider = snd (handle_toggle_provider e s)"
| "step e s (SlotApiResponse response) = snd (handle_api_response e s response)"
| "step e s (SelectorTaken png) = on_screenshot_taken s png"
| "step e s (SelectorOnlyTaken png) = on_screenshot_only_taken e s png"
| "step e s SelectorCancelled = on_screenshot_cancelled s"
| "step e s TimerCleanup = cleanup_screenshot_history s"
| "step e s RefreshPromptDisplay = update_current_prompt_display s"

inductive reachable :: "nat \<Rightarrow> app \<Rightarrow> bool" for H :: nat where
  reachable_init: "reachable H (init_app cfg)"
| reachable_step: "reachable H s \<Longrightarrow> MAX_SCREENSHOT_HISTORY e = H \<Longrightarrow> reachable H (step e s ev)"

section \<open>Observations on a trace\<close>

fun is_emit :: "effect \<Rightarrow> bool" where
  "is_emit (Emit _) = True"
| "is_emit _ = False"

fun is_clear_report :: "effect \<Rightarrow> bool" where
  "is_clear_report (Log _ (HistoryClearedByUser _ _)) = True"
| "is_clear_report (Log _ (HistoryCleanedUp _ _)) = True"
| "is_clear_report _ = False"

fun is_provider_call :: "effect \<Rightarrow> bool" where
  "is_provider_call (GetService _) = True"
| "is_provider_call (AnalyzeImages _ _) = True"
| "is_provider_call _ = False"

fun is_clipboard_work :: "effect \<Rightarrow> bool" where
  "is_clipboard_work (ExtractCodeBlocks _) = True"
| "is_clipboard_work (CopyToClipboard _) = True"
| "is_clipboard_work _ = False"

fun is_start_thread :: "effect \<Rightarrow> bool" where
  "is_start_thread (StartThread _ _ _) = True"
| "is_start_thread _ = False"

fun is_capture :: "effect \<Rightarrow> bool" where
  "is_capture CaptureScreen = True"
| "is_capture _ = False"

fun finalized :: "effect list \<Rightarrow> string list" where
  "finalized [] = []"
| "finalized (Log _ (CompleteResponse md) # es) = md # finalized es"
| "finalized (_ # es) = finalized es"

section \<open>Notions of the claims\<close>

text \<open>
  A provider failure with exception \<open>x\<close>: \<open>get_service\<close> raises \<open>x\<close>, or it returns a
  service whose \<open>analyze_images\<close> raises \<open>x\<close> on the request. The threads started so
  far are the \<open>StartThread\<close> entries of the trace.
\<close>

definition provider_fails :: "env \<Rightarrow> png list \<Rightarrow> prompt \<Rightarrow> string \<Rightarrow> exn \<Rightarrow> bool" where
  "provider_fails e all_images prompt provider x =
     (case get_service e provider of
        Inl y \<Rightarrow> y = x
      | Inr service \<Rightarrow>
          (case map_of prompt ''content'' of
             None \<Rightarrow> False
           | Some content \<Rightarrow> service all_images content = Inl x))"

definition threads :: "app \<Rightarrow> effect list" where
  "threads s = filter is_start_thread (trace s)"

text \<open>A stream of chunks that are not the completion signal.\<close>

definition chunk_items :: "string list \<Rightarrow> stream_item list" where
  "chunk_items chunks = map (\<lambda>c. Inr (c, False)) chunks"

section \<open>Concrete configurations and collaborators\<close>

definition demo_prompt :: prompt where
  "demo_prompt =
     [(''name'', ''Explain''), (''hotkey'', ''alt+1''), (''content'', ''Explain this code'')]"

definition other_prompt :: prompt where
  "other_prompt = [(''name'', ''Fix''), (''hotkey'', ''alt+2''), (''content'', ''Fix this bug'')]"

definition demo_config :: config where
  "demo_config =
     \<lparr>cfg_prompts = Some [demo_prompt, other_prompt],
      cfg_current_prompt_index = Some 0,
      cfg_provider = Some ''Gemini''\<rparr>"

definition echo_service :: service where
  "echo_service images text = Inr (Some text)"

definition demo_env :: env where
  "demo_env =
     \<lparr>MAX_SCREENSHOT_HISTORY = 3,
      use_selector = True,
      capture_screen = Inr [0x89, 0x50],
      selector_new = None,
      selector_connect = None,
      selector_start_capture = None,
      get_service = (\<lambda>name. if name = ''Gemini'' \<or> name = ''GPT'' then Inr echo_service
                             else Inl (Exception ''unknown provider'')),
      extract_code_blocks = (\<lambda>text. Inr []),
      copy_to_clipboard = (\<lambda>text. Inr True),
      markdown_render = (\<lambda>text. Inr text),
      toast_show = None,
      overlay_handle_response = (\<lambda>text. None),
      provider_radios = [''Gemini'', ''GPT'']\<rparr>"

definition failing_service :: service where
  "failing_service images text = Inl (Exception ''quota exceeded'')"

definition failing_env :: env where
  "failing_env = demo_env\<lparr>get_service := (\<lambda>name. Inr failing_service)\<rparr>"

definition cancelling_service :: service where
  "cancelling_service images text = Inl (BaseException ''CancelledError'')"

definition cancelled_env :: env where
  "cancelled_env = demo_env\<lparr>get_service := (\<lambda>name. Inr cancelling_service)\<rparr>"

definition exiting_env :: env where
  "exiting_env = demo_env\<lparr>get_service := (\<lambda>name. Inl (BaseException ''SystemExit''))\<rparr>"

definition overlay_broken_env :: env where
  "overlay_broken_env =
     demo_env\<lparr>overlay_handle_response := (\<lambda>text. Some (Exception ''overlay closed''))\<rparr>"

definition direct_env :: env where
  "direct_env = demo_env\<lparr>use_selector := False\<rparr>"

definition no_selector_env :: env where
  "no_selector_env = demo_env\<lparr>selector_new := Some (Exception ''selector unavailable'')\<rparr>"

definition broken_capture_env :: env where
  "broken_capture_env =
     demo_env\<lparr>selector_new := Some (Exception ''selector unavailable''),
              capture_screen := Inl (Exception ''screen grab failed'')\<rparr>"

text \<open>The start state after one prompt hotkey; the same after one saved screenshot.\<close>

definition pending_state :: app where
  "pending_state = snd (trigger_prompt demo_env (init_app demo_config) demo_prompt)"

definition saved_state :: app where
  "saved_state = save_screenshot_to_history demo_env (init_app demo_config) [0x41]"

definition one_saved_state :: app where
  "one_saved_state = snd (trigger_prompt demo_env saved_state demo_prompt)"

definition no_prompts_state :: app where
  "no_prompts_state =
     init_app \<lparr>cfg_prompts = Some [], cfg_current_prompt_index = Some 5, cfg_provider = None\<rparr>"

definition stale_index_state :: app where
  "stale_index_state = init_app (demo_config\<lparr>cfg_current_prompt_index := Some 7\<rparr>)"

definition claude_state :: app where
  "claude_state = init_app (demo_config\<lparr>cfg_provider := Some ''Claude''\<rparr>)"

section \<open>Basic facts\<close>

lemma perform_fields [simp]:
  "screenshot_history (perform es s) = screenshot_history s"
  "pending_prompt (perform es s) = pending_prompt s"
  "config_manager (perform es s) = config_manager s"
  "current_prompt_index (perform es s) = current_prompt_index s"
  "trace (perform es s) = trace s @ es"
  by (simp_all add: perform_def)

lemma close_selector_fields [simp]:
  "screenshot_history (close_selector s) = screenshot_history s"
  "pending_prompt (close_selector s) = pending_prompt s"
  "config_manager (close_selector s) = config_manager s"
  "filter is_start_thread (trace (close_selector s)) = filter is_start_thread (trace s)"
  by (simp_all add: close_selector_def)

lemma process_prompt_history [simp]:
  "screenshot_history (process_prompt_with_screenshot s png prompt) = screenshot_history s"
  by (simp add: process_prompt_with_screenshot_def Let_def)

lemma process_prompt_threads:
  "threads (process_prompt_with_screenshot s png prompt) =
     threads s @
     [StartThread (screenshot_history s @ [png]) prompt (get_provider (config_manager s))]"
  by (simp add: threads_def process_prompt_with_screenshot_def Let_def)

lemma threads_perform_logs [simp]:
  "threads (perform [Log l m] s) = threads s"
  "threads (perform [Log l m, CaptureScreen] s) = threads s"
  "threads (perform [Log l m, CaptureScreen, Log l' m'] s) = threads s"
  "threads (perform [CaptureScreen] s) = threads s"
  "threads (perform [SelectorNew] s) = threads s"
  "threads (perform [SelectorNew, SelectorConnect] s) = threads s"
  "threads (perform [SelectorNew, SelectorConnect, SelectorStartCapture] s) = threads s"
  by (simp_all add: threads_def)

lemma threads_selector_field [simp]:
  "threads (s\<lparr>screenshot_selector := b\<rparr>) = threads s"
  by (simp add: threads_def)

lemma trigger_prompt_fields [simp]:
  "screenshot_history (snd (trigger_prompt e s prompt)) = screenshot_history s"
  "current_prompt_index (snd (trigger_prompt e s prompt)) = current_prompt_index s"
  "config_manager (snd (trigger_prompt e s prompt)) = config_manager s"
  by (simp_all add: trigger_prompt_def process_prompt_with_screenshot_def Let_def
      split: option.splits sum.splits)

lemma trigger_prompt_selector:
  "use_selector e \<Longrightarrow> map_of prompt ''name'' = Some name \<Longrightarrow>
   trigger_prompt e s prompt =
     (None,
      perform [Log DEFAULT (TriggerPrompt name), Emit (TriggerScreenshot True)]
        (s\<lparr>pending_prompt := Some prompt\<rparr>))"
  by (simp add: trigger_prompt_def)

lemma show_toast_fields [simp]:
  "screenshot_history (snd (show_toast e s t)) = screenshot_history s"
  "config_manager (snd (show_toast e s t)) = config_manager s"
  by (simp_all add: show_toast_def split: option.splits)

lemma start_selector_fields [simp]:
  "screenshot_history (snd (start_selector e s)) = screenshot_history s"
  "pending_prompt (snd (start_selector e s)) = pending_prompt s"
  "config_manager (snd (start_selector e s)) = config_manager s"
  "threads (snd (start_selector e s)) = threads s"
  by (simp_all add: start_selector_def split: option.splits)

lemma update_display_history [simp]:
  "screenshot_history (update_current_prompt_display s) = screenshot_history s"
  by (simp add: update_current_prompt_display_def Let_def)

lemma handle_api_response_history [simp]:
  "screenshot_history (snd (handle_api_response e s response)) = screenshot_history s"
  by (simp add: handle_api_response_def render_response_def response_failed_def
      split: sum.splits option.splits)

lemma toggle_provider_config:
  "config_manager (snd (handle_toggle_provider e s)) =
     (config_manager s)\<lparr>cfg_provider := Some (toggled (get_provider (config_manager s)))\<rparr>"
  by (simp add: handle_toggle_provider_def Let_def prod.case_eq_if split: option.splits)

lemma startswith_append [simp]: "startswith (p @ s) p"
  by (simp add: startswith_def)

lemma failure_response_is_error: "startswith (failure_response x) error_prefix"
  by (simp add: failure_response_def)

section \<open>The history stays within its bound\<close>

lemma save_history:
  "length (screenshot_history s) \<le> MAX_SCREENSHOT_HISTORY e \<Longrightarrow>
   screenshot_history (save_screenshot_to_history e s png) =
     drop (Suc (length (screenshot_history s)) - MAX_SCREENSHOT_HISTORY e)
          (screenshot_history s @ [png])"
  by (cases "screenshot_history s")
     (auto simp: save_screenshot_to_history_def Let_def Suc_diff_le)

lemma save_length:
  "length (screenshot_history s) \<le> MAX_SCREENSHOT_HISTORY e \<Longrightarrow>
   length (screenshot_history (save_screenshot_to_history e s png)) \<le> MAX_SCREENSHOT_HISTORY e"
  by (simp add: save_history)





lemma step_history_bounded:
  assumes "length (screenshot_history s) \<le> MAX_SCREENSHOT_HISTORY e"
  shows "length (screenshot_history (step e s ev)) \<le> MAX_SCREENSHOT_HISTORY e"
proof (cases ev)
  case HotkeySendPrompt
  then show ?thesis using assms by (simp add: send_current_prompt_def Let_def)
next
  case (HotkeySwitchPrompt i)
  then show ?thesis using assms by (simp add: switch_prompt_def Let_def)
next
  case HotkeyScreenshotOnly
  then show ?thesis using assms
    by (simp add: capture_screenshot_only_def save_length split: sum.splits)
next
  case HotkeyClearScreenshots
  then show ?thesis using assms by (simp add: clear_screenshot_history_def)
next
  case (SlotScreenshot b)
  have start: "length (screenshot_history (snd (start_selector e s))) \<le> MAX_SCREENSHOT_HISTORY e"
    using assms by simp
  have "length (screenshot_history (snd (smart_fallback e s1 x))) \<le> MAX_SCREENSHOT_HISTORY e"
    if "length (screenshot_history s1) \<le> MAX_SCREENSHOT_HISTORY e" for s1 x
    using that by (simp add: smart_fallback_def Let_def split: option.splits sum.splits)
  moreover have "length (screenshot_history (snd (only_fallback e s1 x))) \<le> MAX_SCREENSHOT_HISTORY e"
    if "length (screenshot_history s1) \<le> MAX_SCREENSHOT_HISTORY e" for s1 x
    using that by (simp add: only_fallback_def save_length Let_def split: sum.splits)
  ultimately show ?thesis
    using SlotScreenshot start
    by (cases "start_selector e s")
       (auto simp: handle_screenshot_in_main_thread_def start_smart_screenshot_def
          start_smart_screenshot_only_def split: option.splits)
next
  case SlotToggleProvider
  have "screenshot_history (snd (handle_toggle_provider e s)) = screenshot_history s"
    by (simp add: handle_toggle_provider_def Let_def prod.case_eq_if split: option.splits)
  then show ?thesis using SlotToggleProvider assms by simp
next
  case (SlotApiResponse r)
  then show ?thesis using assms by simp
next
  case (SelectorTaken png)
  then show ?thesis using assms
    by (simp add: on_screenshot_taken_def Let_def split: option.splits)
next
  case (SelectorOnlyTaken png)
  then show ?thesis using assms by (simp add: on_screenshot_only_taken_def save_length)
next
  case SelectorCancelled
  then show ?thesis using assms by (simp add: on_screenshot_cancelled_def)
next
  case TimerCleanup
  then show ?thesis using assms by (simp add: cleanup_screenshot_history_def)
next
  case RefreshPromptDisplay
  then show ?thesis using assms by simp
qed

text \<open>
  Every state the event loop reaches from the start state has a history within the
  bound, whatever the collaborators answer.
\<close>

lemma reachable_history_bounded:
  "reachable H s \<Longrightarrow> length (screenshot_history s) \<le> H"
proof (induction rule: reachable.induct)
  case (reachable_init cfg)
  then show ?case by (simp add: init_app_def)
next
  case (reachable_step s e ev)
  then show ?case using step_history_bounded [of s e ev] by simp
qed

section \<open>Streaming\<close>

lemma finalized_append: "finalized (es @ fs) = finalized es @ finalized fs"
  by (induction es rule: finalized.induct) simp_all

lemma stream_loop_chunks:
  "stream_loop e s full n (chunk_items chunks @ Inr (t, True) # rest) = (None, s') \<Longrightarrow>
   finalized (trace s') = finalized (trace s) @ [full @ concat chunks]"
proof (induction chunks arbitrary: s full n)
  case Nil
  then show ?case
    by (auto simp: chunk_items_def process_complete_response_def finalized_append)
next
  case (Cons c chunks)
  from Cons.prems have
    "stream_loop e
       (perform [Log DEFAULT (ChunkReceived (Suc n) False), Log DEFAULT (ChunkAppended c),
                 OverlayChunk c] s)
       (full @ c) (Suc n) (chunk_items chunks @ Inr (t, True) # rest) = (None, s')"
    by (simp add: chunk_items_def)
  from Cons.IH [OF this] show ?case
    by (simp add: finalized_append)
qed

lemma stream_loop_returns:
  "fst (stream_loop e s full n (chunk_items chunks @ Inr (t, True) # rest)) = None"
  by (induction chunks arbitrary: s full n) (simp_all add: chunk_items_def)

lemma stream_loop_no_clipboard:
  "filter is_clipboard_work (trace (snd (stream_loop e s full n items))) =
   filter is_clipboard_work (trace s)"
  by (induction e s full n items rule: stream_loop.induct)
     (auto simp: stream_failed_def process_complete_response_def Let_def split: sum.splits)

section \<open>The worker\<close>

lemma worker_on_failure:
  "provider_fails e all_images prompt provider x \<Longrightarrow>
   \<exists>calls. async_api_worker e all_images prompt provider = worker_failed calls x
     \<and> (calls = [GetService provider]
        \<or> (\<exists>content. calls = [GetService provider, AnalyzeImages all_images content]))"
  by (auto simp: provider_fails_def async_api_worker_def split: sum.splits option.splits)

lemma worker_without_failure:
  "\<forall>x. \<not> provider_fails e all_images prompt provider x \<Longrightarrow>
   fst (async_api_worker e all_images prompt provider) = None
   \<and> (\<exists>r. filter is_emit (snd (async_api_worker e all_images prompt provider)) =
            [Emit (ApiResponse r)])"
  by (auto simp: provider_fails_def async_api_worker_def worker_failed_def key_error_def
      split: sum.splits option.splits)

lemma worker_last:
  "last (snd (async_api_worker e all_images prompt provider)) = ScheduleCleanup"
  by (simp add: async_api_worker_def worker_failed_def split: sum.splits option.splits)

section \<open>The claims\<close>

text \<open>
  C1 (as the code has it). The pending prompt is one slot, so at most one pending prompt
  exists; a capture request made while one is pending is not refused. With the selector
  enabled, \<open>trigger_prompt\<close> for a prompt that has a name replaces whatever is pending by
  the new prompt and emits the capture signal again, and \<open>capture_screenshot_only\<close>
  clears the slot and emits the capture-only signal; neither logs a refusal.
\<close>

theorem capture_request_replaces_pending:
  assumes "use_selector e" and "map_of prompt ''name'' = Some name"
  shows "trigger_prompt e s prompt =
           (None,
            s\<lparr>pending_prompt := Some prompt,
               trace := trace s @ [Log DEFAULT (TriggerPrompt name), Emit (TriggerScreenshot True)]\<rparr>)
       \<and> capture_screenshot_only e s =
           (None,
            s\<lparr>pending_prompt := None, trace := trace s @ [Emit (TriggerScreenshot False)]\<rparr>)"
  using assms by (simp add: trigger_prompt_selector capture_screenshot_only_def perform_def)

text \<open>
  C1, an instance: with the first prompt pending, a request for the second prompt
  leaves the second one pending.
\<close>

theorem capture_request_replaces_pending_witness:
  "use_selector demo_env \<and> map_of other_prompt ''name'' = Some ''Fix''
   \<and> pending_prompt pending_state = Some demo_prompt
   \<and> fst (trigger_prompt demo_env pending_state other_prompt) = None
   \<and> pending_prompt (snd (trigger_prompt demo_env pending_state other_prompt)) = Some other_prompt
   \<and> pending_prompt (snd (capture_screenshot_only demo_env pending_state)) = None"
  using capture_request_replaces_pending [of demo_env other_prompt "''Fix''" pending_state]
  by (simp add: demo_env_def other_prompt_def pending_state_def trigger_prompt_def perform_def
      demo_prompt_def)

text \<open>
  C1 as stated fails: the second request is not rejected. After two prompt hotkeys in a
  row the pending prompt is the second prompt, not the first, and two capture signals
  have been emitted; a capture-only hotkey in the same state drops the pending prompt.
\<close>

theorem second_request_not_rejected_counterexample:
  "pending_prompt pending_state = Some demo_prompt
   \<and> pending_prompt (snd (trigger_prompt demo_env pending_state other_prompt)) = Some other_prompt
   \<and> other_prompt \<noteq> demo_prompt
   \<and> filter is_emit (trace (snd (trigger_prompt demo_env pending_state other_prompt))) =
       [Emit (TriggerScreenshot True), Emit (TriggerScreenshot True)]
   \<and> pending_prompt (snd (capture_screenshot_only demo_env pending_state)) = None"
  by (simp add: pending_state_def trigger_prompt_def capture_screenshot_only_def perform_def
      demo_env_def demo_prompt_def other_prompt_def init_app_def)



text \<open>
  C3 (as the code has it). Whatever the images, the prompt and the provider name: when
  the provider call returns (a text, an empty text or \<open>None\<close>) or fails with an
  \<open>Exception\<close> from \<open>get_service\<close> or \<open>analyze_images\<close>, or the prompt has no content, no
  exception leaves the worker and it emits exactly one signal, an
  \<open>api_response_signal\<close>. When the provider raises something that is no \<open>Exception\<close>,
  the \<open>except Exception\<close> clause does not catch it: it leaves the worker and no signal is
  emitted. On every path the last thing the worker does is to schedule the cleanup.
\<close>

theorem worker_emits_one_unless_uncaught:
  "(\<not> (\<exists>y. provider_fails e all_images prompt provider y \<and> \<not> caught y) \<longrightarrow>
       fst (async_api_worker e all_images prompt provider) = None
     \<and> (\<exists>r. filter is_emit (snd (async_api_worker e all_images prompt provider)) =
              [Emit (ApiResponse r)])
     \<and> length (filter is_emit (snd (async_api_worker e all_images prompt provider))) = 1)
   \<and> (provider_fails e all_images prompt provider x \<and> \<not> caught x \<longrightarrow>
       fst (async_api_worker e all_images prompt provider) = Some x
     \<and> filter is_emit (snd (async_api_worker e all_images prompt provider)) = [])
   \<and> last (snd (async_api_worker e all_images prompt provider)) = ScheduleCleanup"
proof (intro conjI impI)
  assume "\<not> (\<exists>y. provider_fails e all_images prompt provider y \<and> \<not> caught y)"
  then have all_caught: "\<forall>y. provider_fails e all_images prompt provider y \<longrightarrow> caught y"
    by blast
  have one: "fst (async_api_worker e all_images prompt provider) = None
     \<and> (\<exists>r. filter is_emit (snd (async_api_worker e all_images prompt provider)) =
              [Emit (ApiResponse r)])"
  proof (cases "\<exists>y. provider_fails e all_images prompt provider y")
    case True
    then obtain y where y: "provider_fails e all_images prompt provider y" ..
    with all_caught have "caught y" by blast
    moreover obtain calls where
      "async_api_worker e all_images prompt provider = worker_failed calls y"
      "calls = [GetService provider]
       \<or> (\<exists>content. calls = [GetService provider, AnalyzeImages all_images content])"
      using worker_on_failure [OF y] by blast
    ultimately show ?thesis
      by (auto simp: worker_failed_def)
  next
    case False
    then show ?thesis
      using worker_without_failure [of e all_images prompt provider] by blast
  qed
  from one show "fst (async_api_worker e all_images prompt provider) = None" ..
  from one show "\<exists>r. filter is_emit (snd (async_api_worker e all_images prompt provider)) =
              [Emit (ApiResponse r)]" ..
  from one show "length (filter is_emit (snd (async_api_worker e all_images prompt provider))) = 1"
    by auto
next
  assume uncaught: "provider_fails e all_images prompt provider x \<and> \<not> caught x"
  then obtain calls where
    w: "async_api_worker e all_images prompt provider = worker_failed calls x"
    and c: "calls = [GetService provider]
            \<or> (\<exists>content. calls = [GetService provider, AnalyzeImages all_images content])"
    using worker_on_failure [of e all_images prompt provider x] by blast
  from uncaught w show "fst (async_api_worker e all_images prompt provider) = Some x"
    by (simp add: worker_failed_def)
  from uncaught w c show "filter is_emit (snd (async_api_worker e all_images prompt provider)) = []"
    by (auto simp: worker_failed_def)
next
  show "last (snd (async_api_worker e all_images prompt provider)) = ScheduleCleanup"
    by (rule worker_last)
qed

text \<open>
  C3, instances: the service raising the Exception "quota exceeded" gives one error
  response; the service raising CancelledError, which is no Exception, leaves the worker.
\<close>

theorem worker_emits_one_unless_uncaught_witness:
  "\<not> (\<exists>y. provider_fails failing_env [[0x41]] demo_prompt ''Gemini'' y \<and> \<not> caught y)
   \<and> fst (async_api_worker failing_env [[0x41]] demo_prompt ''Gemini'') = None
   \<and> length (filter is_emit (snd (async_api_worker failing_env [[0x41]] demo_prompt ''Gemini''))) = 1
   \<and> provider_fails cancelled_env [[0x41]] demo_prompt ''Gemini'' (BaseException ''CancelledError'')
   \<and> \<not> caught (BaseException ''CancelledError'')
   \<and> fst (async_api_worker cancelled_env [[0x41]] demo_prompt ''Gemini'') =
       Some (BaseException ''CancelledError'')"
proof -
  have a: "\<not> (\<exists>y. provider_fails failing_env [[0x41]] demo_prompt ''Gemini'' y \<and> \<not> caught y)"
    by (auto simp: provider_fails_def failing_env_def failing_service_def demo_prompt_def)
  have b: "provider_fails cancelled_env [[0x41]] demo_prompt ''Gemini''
             (BaseException ''CancelledError'')
           \<and> \<not> caught (BaseException ''CancelledError'')"
    by (simp add: provider_fails_def cancelled_env_def cancelling_service_def demo_prompt_def)
  show ?thesis
    using a b
      worker_emits_one_unless_uncaught
        [of failing_env "[[0x41]]" demo_prompt "''Gemini''" "BaseException ''CancelledError''"]
      worker_emits_one_unless_uncaught
        [of cancelled_env "[[0x41]]" demo_prompt "''Gemini''" "BaseException ''CancelledError''"]
    by blast
qed

text \<open>
  C3 as stated fails for a provider that raises what \<open>except Exception\<close> does not catch:
  with \<open>analyze_images\<close> raising CancelledError the worker asks for the service, calls it,
  schedules the cleanup and is left by the exception; it has emitted no signal.
\<close>

theorem worker_emits_nothing_counterexample:
  "async_api_worker cancelled_env [[0x41]] demo_prompt ''Gemini'' =
     (Some (BaseException ''CancelledError''),
      [GetService ''Gemini'', AnalyzeImages [[0x41]] ''Explain this code'', ScheduleCleanup])
   \<and> filter is_emit (snd (async_api_worker cancelled_env [[0x41]] demo_prompt ''Gemini'')) = []"
  by (simp add: async_api_worker_def worker_failed_def cancelled_env_def cancelling_service_def
      demo_prompt_def)

text \<open>
  C4 (as the code has it). When the provider fails with an \<open>Exception\<close> \<open>x\<close>, no exception
  leaves the worker, the one response emitted is the error text built from \<open>str(x)\<close>, the
  worker has logged the failure, has asked for the service once and has called it at
  most once. \<open>handle_api_response\<close> recognises the text as an error, logs it at ERROR and
  calls the overlay with it in red; when that overlay call returns, this is all it does
  and no exception leaves it. A prompt hotkey after that is served: no exception, its
  prompt becomes pending and the capture signal is emitted.
\<close>

theorem provider_failure_is_surfaced:
  assumes "provider_fails e all_images prompt provider x" and "caught x"
  shows "fst (async_api_worker e all_images prompt provider) = None
       \<and> filter is_emit (snd (async_api_worker e all_images prompt provider)) =
           [Emit (ApiResponse (failure_response x))]
       \<and> startswith (failure_response x) error_prefix
       \<and> Log ERROR (Msg (api_exception_prefix @ str_of x)) \<in>
           set (snd (async_api_worker e all_images prompt provider))
       \<and> Log ERROR (Msg (failure_response x)) \<in>
           set (trace (snd (handle_api_response e s (failure_response x))))
       \<and> OverlayHandleResponse (red_paragraph (failure_response x)) \<in>
           set (trace (snd (handle_api_response e s (failure_response x))))
       \<and> (overlay_handle_response e (red_paragraph (failure_response x)) = None \<longrightarrow>
            handle_api_response e s (failure_response x) =
              (None,
               s\<lparr>trace := trace s @ [Log ERROR (Msg (failure_response x)),
                                    OverlayHandleResponse (red_paragraph (failure_response x))]\<rparr>))
       \<and> length (filter is_provider_call (snd (async_api_worker e all_images prompt provider))) \<le> 2
       \<and> length (filter (\<lambda>c. c = GetService provider)
                   (snd (async_api_worker e all_images prompt provider))) = 1
       \<and> (use_selector e \<and> map_of next_prompt ''name'' \<noteq> None \<longrightarrow>
            fst (trigger_prompt e (snd (handle_api_response e s (failure_response x)))
                   next_prompt) = None
          \<and> pending_prompt (snd (trigger_prompt e
                (snd (handle_api_response e s (failure_response x))) next_prompt)) =
              Some next_prompt
          \<and> last (trace (snd (trigger_prompt e
                (snd (handle_api_response e s (failure_response x))) next_prompt))) =
              Emit (TriggerScreenshot True))"
proof -
  let ?w = "async_api_worker e all_images prompt provider"
  let ?r = "failure_response x"
  let ?h = "handle_api_response e s ?r"
  obtain calls where "?w = worker_failed calls x"
    and c: "calls = [GetService provider]
            \<or> (\<exists>content. calls = [GetService provider, AnalyzeImages all_images content])"
    using worker_on_failure [OF assms(1)] by blast
  with assms(2) have w: "?w =
      (None, calls @ [Log ERROR (Msg (api_exception_prefix @ str_of x)),
                      Emit (ApiResponse ?r), ScheduleCleanup])"
    by (simp add: worker_failed_def)
  have w1: "fst ?w = None"
    by (simp add: w)
  have w2: "filter is_emit (snd ?w) = [Emit (ApiResponse ?r)]"
    using c by (auto simp: w)
  have w3: "Log ERROR (Msg (api_exception_prefix @ str_of x)) \<in> set (snd ?w)"
    by (simp add: w)
  have w4: "length (filter is_provider_call (snd ?w)) \<le> 2"
    using c by (auto simp: w)
  have w5: "length (filter (\<lambda>c. c = GetService provider) (snd ?w)) = 1"
    using c by (auto simp: w)
  have h1: "Log ERROR (Msg ?r) \<in> set (trace (snd ?h))"
    by (simp add: handle_api_response_def failure_response_is_error response_failed_def
        split: option.splits)
  have h2: "OverlayHandleResponse (red_paragraph ?r) \<in> set (trace (snd ?h))"
    by (simp add: handle_api_response_def failure_response_is_error response_failed_def
        split: option.splits)
  have h3: "overlay_handle_response e (red_paragraph ?r) = None \<longrightarrow>
            ?h = (None, s\<lparr>trace := trace s @ [Log ERROR (Msg ?r),
                                              OverlayHandleResponse (red_paragraph ?r)]\<rparr>)"
    by (simp add: handle_api_response_def failure_response_is_error perform_def)
  have t: "use_selector e \<and> map_of next_prompt ''name'' \<noteq> None \<longrightarrow>
            fst (trigger_prompt e (snd ?h) next_prompt) = None
          \<and> pending_prompt (snd (trigger_prompt e (snd ?h) next_prompt)) = Some next_prompt
          \<and> last (trace (snd (trigger_prompt e (snd ?h) next_prompt))) =
              Emit (TriggerScreenshot True)"
    by (auto simp: trigger_prompt_selector)
  from w1 w2 failure_response_is_error w3 h1 h2 h3 w4 w5 t show ?thesis
    by blast
qed

text \<open>
  C4, the scenario: the service raises the Exception "quota exceeded" in
  \<open>analyze_images\<close>; one error response is emitted, the handler shows it and returns, and
  the next prompt hotkey is served.
\<close>

theorem provider_failure_is_surfaced_witness:
  "provider_fails failing_env [[0x41]] demo_prompt ''Gemini'' (Exception ''quota exceeded'')
   \<and> caught (Exception ''quota exceeded'')
   \<and> filter is_emit (snd (async_api_worker failing_env [[0x41]] demo_prompt ''Gemini'')) =
       [Emit (ApiResponse (failure_response (Exception ''quota exceeded'')))]
   \<and> overlay_handle_response failing_env
         (red_paragraph (failure_response (Exception ''quota exceeded''))) = None
   \<and> fst (handle_api_response failing_env (init_app demo_config)
             (failure_response (Exception ''quota exceeded''))) = None
   \<and> use_selector failing_env \<and> map_of other_prompt ''name'' \<noteq> None
   \<and> pending_prompt
         (snd (trigger_prompt failing_env
            (snd (handle_api_response failing_env (init_app demo_config)
               (failure_response (Exception ''quota exceeded''))))
            other_prompt)) = Some other_prompt"
proof -
  have f: "provider_fails failing_env [[0x41]] demo_prompt ''Gemini'' (Exception ''quota exceeded'')"
    by (simp add: provider_fails_def failing_env_def failing_service_def demo_prompt_def)
  have c: "caught (Exception ''quota exceeded'')"
    by simp
  have o: "overlay_handle_response failing_env
         (red_paragraph (failure_response (Exception ''quota exceeded''))) = None"
    by (simp add: failing_env_def demo_env_def)
  have u: "use_selector failing_env \<and> map_of other_prompt ''name'' \<noteq> None"
    by (simp add: failing_env_def demo_env_def other_prompt_def)
  have "fst (handle_api_response failing_env (init_app demo_config)
             (failure_response (Exception ''quota exceeded''))) = None"
    using o provider_failure_is_surfaced [OF f c, of "init_app demo_config" other_prompt]
    by simp
  then show ?thesis
    using f c o u provider_failure_is_surfaced [OF f c, of "init_app demo_config" other_prompt]
    by blast
qed

text \<open>
  C4 as stated fails for a failure that is no \<open>Exception\<close>: with \<open>get_service\<close> raising
  SystemExit the worker only schedules the cleanup and is left by the exception; no
  Failure is delivered and nothing is logged. And the handler is not safe against its
  own overlay: when \<open>overlay.handle_response\<close> raises, the \<open>except\<close> clause calls it again
  outside any \<open>try\<close>, and that exception leaves \<open>handle_api_response\<close>.
\<close>

theorem provider_failure_uncaught_counterexample:
  "provider_fails exiting_env [[0x41]] demo_prompt ''Gemini'' (BaseException ''SystemExit'')
   \<and> async_api_worker exiting_env [[0x41]] demo_prompt ''Gemini'' =
       (Some (BaseException ''SystemExit''), [GetService ''Gemini'', ScheduleCleanup])
   \<and> fst (handle_api_response overlay_broken_env (init_app demo_config)
             (failure_response (Exception ''quota exceeded''))) =
       Some (Exception ''overlay closed'')"
  by (simp add: provider_fails_def async_api_worker_def worker_failed_def exiting_env_def
      handle_api_response_def failure_response_is_error response_failed_def
      overlay_broken_env_def)

text \<open>
  C5 (as the code has it). For a stream of chunks followed by a completion signal the
  handler returns normally and the finished text it hands to
  \<open>_process_complete_response\<close> is the concatenation of the chunks received before the
  signal, in the order of arrival (the text of the signal itself and anything after it
  are not read). The handler runs no code-block extraction and no clipboard write, on
  any stream: not per chunk and not at the end.
\<close>

theorem streaming_concatenates_without_clipboard:
  "fst (handle_streaming_response e s (chunk_items chunks @ Inr (t, True) # rest)) = None
   \<and> finalized (trace (snd (handle_streaming_response e s
        (chunk_items chunks @ Inr (t, True) # rest)))) = finalized (trace s) @ [concat chunks]
   \<and> filter is_clipboard_work (trace (snd (handle_streaming_response e s items))) =
       filter is_clipboard_work (trace s)"
proof -
  let ?s0 = "perform [OverlayStartStreaming, Log DEFAULT StreamingStarted] s"
  let ?r = "stream_loop e ?s0 [] 0 (chunk_items chunks @ Inr (t, True) # rest)"
  have "?r = (None, snd ?r)"
    using stream_loop_returns [of e ?s0 "[]" 0 chunks t rest] by (simp add: prod_eq_iff)
  from stream_loop_chunks [OF this]
  have "finalized (trace (snd ?r)) = finalized (trace s) @ [concat chunks]"
    by (simp add: finalized_append)
  then show ?thesis
    by (simp add: handle_streaming_response_def stream_loop_returns stream_loop_no_clipboard)
qed

text \<open>
  C5 as stated fails in its second half: on the chunks ab, cd, ef and a completion
  signal the finished text is abcdef, but the code-block extraction and the clipboard
  write have run zero times, not once.
\<close>

theorem streaming_clipboard_counterexample:
  "finalized (trace (snd (handle_streaming_response demo_env (init_app demo_config)
       [Inr (''ab'', False), Inr (''cd'', False), Inr (''ef'', False), Inr ([], True)]))) =
     [''abcdef'']
   \<and> length (filter is_clipboard_work
        (trace (snd (handle_streaming_response demo_env (init_app demo_config)
           [Inr (''ab'', False), Inr (''cd'', False), Inr (''ef'', False), Inr ([], True)])))) = 0"
  by (simp add: handle_streaming_response_def process_complete_response_def init_app_def)

text \<open>
  C6 fails on the code. With a prompt pending, the selector failing to start and the
  fallback \<open>capture_screen()\<close> failing too, one fallback capture is attempted, its
  exception leaves \<open>start_smart_screenshot\<close> (nothing catches or logs it) and the prompt
  stays pending; the exception leaves \<open>start_smart_screenshot_only\<close> in the same way. When
  the fallback capture succeeds the method returns, and the prompt still stays pending.
\<close>

theorem fallback_capture_failure_escapes:
  "fst (start_smart_screenshot broken_capture_env pending_state) =
     Some (Exception ''screen grab failed'')
   \<and> length (filter is_capture
        (trace (snd (start_smart_screenshot broken_capture_env pending_state)))) = 1
   \<and> pending_prompt (snd (start_smart_screenshot broken_capture_env pending_state)) =
       Some demo_prompt
   \<and> fst (start_smart_screenshot_only broken_capture_env (init_app demo_config)) =
       Some (Exception ''screen grab failed'')
   \<and> fst (start_smart_screenshot no_selector_env pending_state) = None
   \<and> pending_prompt (snd (start_smart_screenshot no_selector_env pending_state)) =
       Some demo_prompt"
  by (simp add: start_smart_screenshot_def start_smart_screenshot_only_def smart_fallback_def
      only_fallback_def start_selector_def broken_capture_env_def no_selector_env_def
      pending_state_def
      trigger_prompt_def demo_env_def demo_prompt_def init_app_def
      process_prompt_with_screenshot_def Let_def)

text \<open>
  C7 (as the code has it). Every dispatch goes through
  \<open>process_prompt_with_screenshot\<close>, which starts one worker thread with the images of
  the history, in their order, followed by the current capture, with the prompt and the
  provider read from the configuration at that moment, and leaves the history itself as
  it was. This holds on each of the three paths that dispatch: the selector delivering
  a capture while a prompt is pending (\<open>on_screenshot_taken\<close>, which also releases the
  pending prompt), \<open>trigger_prompt\<close> capturing the screen itself when the selector is
  switched off, and the fallback capture of \<open>start_smart_screenshot\<close> when the selector
  failed to start with an \<open>Exception\<close>.
\<close>

theorem dispatch_sends_history_then_current:
  "threads (process_prompt_with_screenshot s png prompt) =
     threads s @
     [StartThread (screenshot_history s @ [png]) prompt (get_provider (config_manager s))]
   \<and> screenshot_history (process_prompt_with_screenshot s png prompt) = screenshot_history s
   \<and> (pending_prompt s = Some prompt \<and> prompt \<noteq> [] \<longrightarrow>
        threads (on_screenshot_taken s png) =
          threads s @
          [StartThread (screenshot_history s @ [png]) prompt (get_provider (config_manager s))]
      \<and> screenshot_history (on_screenshot_taken s png) = screenshot_history s
      \<and> pending_prompt (on_screenshot_taken s png) = None)
   \<and> (\<not> use_selector e \<and> map_of prompt ''name'' \<noteq> None \<and> capture_screen e = Inr png \<longrightarrow>
        fst (trigger_prompt e s prompt) = None
      \<and> threads (snd (trigger_prompt e s prompt)) =
          threads s @
          [StartThread (screenshot_history s @ [png]) prompt (get_provider (config_manager s))]
      \<and> screenshot_history (snd (trigger_prompt e s prompt)) = screenshot_history s)
   \<and> (pending_prompt s = Some prompt \<and> prompt \<noteq> [] \<and> fst (start_selector e s) = Some x
       \<and> caught x \<and> capture_screen e = Inr png \<longrightarrow>
        fst (start_smart_screenshot e s) = None
      \<and> threads (snd (start_smart_screenshot e s)) =
          threads s @
          [StartThread (screenshot_history s @ [png]) prompt (get_provider (config_manager s))]
      \<and> screenshot_history (snd (start_smart_screenshot e s)) = screenshot_history s)"
proof (intro conjI impI)
  show "threads (process_prompt_with_screenshot s png prompt) =
     threads s @
     [StartThread (screenshot_history s @ [png]) prompt (get_provider (config_manager s))]"
    by (rule process_prompt_threads)
next
  show "screenshot_history (process_prompt_with_screenshot s png prompt) = screenshot_history s"
    by simp
next
  assume p: "pending_prompt s = Some prompt \<and> prompt \<noteq> []"
  let ?s1 = "close_selector (perform [Log DEFAULT SmartScreenshotDone] s)"
  from p have taken:
    "on_screenshot_taken s png =
       (process_prompt_with_screenshot ?s1 png prompt)\<lparr>pending_prompt := None\<rparr>"
    by (simp add: on_screenshot_taken_def Let_def)
  have "threads ?s1 = threads s"
    by (simp add: threads_def)
  then show "threads (on_screenshot_taken s png) =
          threads s @
          [StartThread (screenshot_history s @ [png]) prompt (get_provider (config_manager s))]"
    using process_prompt_threads [of ?s1 png prompt] by (simp add: taken threads_def)
  show "screenshot_history (on_screenshot_taken s png) = screenshot_history s"
    by (simp add: taken)
  show "pending_prompt (on_screenshot_taken s png) = None"
    by (simp add: taken)
next
  assume d: "\<not> use_selector e \<and> map_of prompt ''name'' \<noteq> None \<and> capture_screen e = Inr png"
  then obtain name where name: "map_of prompt ''name'' = Some name"
    by blast
  let ?s1 = "perform [Log DEFAULT (TriggerPrompt name), CaptureScreen,
                      Log DEFAULT CurrentCaptureDone] s"
  from d name have direct:
    "trigger_prompt e s prompt = (None, process_prompt_with_screenshot ?s1 png prompt)"
    by (simp add: trigger_prompt_def)
  show "fst (trigger_prompt e s prompt) = None"
    by (simp add: direct)
  show "threads (snd (trigger_prompt e s prompt)) =
          threads s @
          [StartThread (screenshot_history s @ [png]) prompt (get_provider (config_manager s))]"
    using process_prompt_threads [of ?s1 png prompt] by (simp add: direct)
  show "screenshot_history (snd (trigger_prompt e s prompt)) = screenshot_history s"
    by simp
next
  assume f: "pending_prompt s = Some prompt \<and> prompt \<noteq> [] \<and> fst (start_selector e s) = Some x
       \<and> caught x \<and> capture_screen e = Inr png"
  let ?s0 = "snd (start_selector e s)"
  let ?s1 = "perform [CaptureScreen] (perform [Log ERROR (SmartScreenshotStartFailed (str_of x))] ?s0)"
  have pending: "pending_prompt ?s0 = Some prompt"
    using f by simp
  from f have "start_smart_screenshot e s = smart_fallback e ?s0 x"
    by (simp add: start_smart_screenshot_def prod.case_eq_if)
  with f pending have fallback:
    "start_smart_screenshot e s = (None, process_prompt_with_screenshot ?s1 png prompt)"
    by (simp add: smart_fallback_def Let_def)
  show "fst (start_smart_screenshot e s) = None"
    by (simp add: fallback)
  show "threads (snd (start_smart_screenshot e s)) =
          threads s @
          [StartThread (screenshot_history s @ [png]) prompt (get_provider (config_manager s))]"
    using process_prompt_threads [of ?s1 png prompt] by (simp add: fallback)
  show "screenshot_history (snd (start_smart_screenshot e s)) = screenshot_history s"
    by (simp add: fallback)
qed

text \<open>
  C7, instances, each with A in the history: the selector delivers B while a prompt is
  pending; with the selector switched off the prompt hotkey captures the screen itself;
  the selector fails to start and the fallback captures the screen. Each time the
  request is A followed by the capture.
\<close>

theorem dispatch_sends_history_then_current_witness:
  "pending_prompt one_saved_state = Some demo_prompt \<and> demo_prompt \<noteq> []
   \<and> threads (on_screenshot_taken one_saved_state [0x42]) =
       [StartThread [[0x41], [0x42]] demo_prompt ''Gemini'']
   \<and> \<not> use_selector direct_env \<and> map_of demo_prompt ''name'' \<noteq> None
   \<and> capture_screen direct_env = Inr [0x89, 0x50]
   \<and> threads (snd (trigger_prompt direct_env saved_state demo_prompt)) =
       [StartThread [[0x41], [0x89, 0x50]] demo_prompt ''Gemini'']
   \<and> fst (start_selector no_selector_env one_saved_state) = Some (Exception ''selector unavailable'')
   \<and> caught (Exception ''selector unavailable'')
   \<and> capture_screen no_selector_env = Inr [0x89, 0x50]
   \<and> threads (snd (start_smart_screenshot no_selector_env one_saved_state)) =
       [StartThread [[0x41], [0x89, 0x50]] demo_prompt ''Gemini'']"
proof -
  have saved: "screenshot_history saved_state = [[0x41]] \<and> threads saved_state = []
               \<and> get_provider (config_manager saved_state) = ''Gemini''"
    by (simp add: saved_state_def save_screenshot_to_history_def init_app_def demo_env_def
        demo_config_def get_provider_def threads_def Let_def)
  have p: "pending_prompt one_saved_state = Some demo_prompt \<and> demo_prompt \<noteq> []"
    by (simp add: one_saved_state_def trigger_prompt_def demo_env_def demo_prompt_def)
  have one: "screenshot_history one_saved_state = [[0x41]] \<and> threads one_saved_state = []
             \<and> get_provider (config_manager one_saved_state) = ''Gemini''"
    using saved
    by (simp add: one_saved_state_def trigger_prompt_def demo_env_def demo_prompt_def threads_def)
  have d: "\<not> use_selector direct_env \<and> map_of demo_prompt ''name'' \<noteq> None
           \<and> capture_screen direct_env = Inr [0x89, 0x50]"
    by (simp add: direct_env_def demo_env_def demo_prompt_def)
  have f: "fst (start_selector no_selector_env one_saved_state) =
             Some (Exception ''selector unavailable'')
           \<and> caught (Exception ''selector unavailable'')
           \<and> capture_screen no_selector_env = Inr [0x89, 0x50]"
    by (simp add: start_selector_def no_selector_env_def demo_env_def)
  show ?thesis
    using saved p one d f
      dispatch_sends_history_then_current
        [of one_saved_state "[0x42]" demo_prompt direct_env "Exception ''selector unavailable''"]
      dispatch_sends_history_then_current
        [of saved_state "[0x89, 0x50]" demo_prompt direct_env "Exception ''selector unavailable''"]
      dispatch_sends_history_then_current
        [of one_saved_state "[0x89, 0x50]" demo_prompt no_selector_env
            "Exception ''selector unavailable''"]
    by simp
qed

text \<open>
  C7 as stated fails in its first half: the current image is not appended to the
  history. With A in the history, dispatching the capture B sends A, B and leaves the
  history at A.
\<close>

theorem dispatch_does_not_append_counterexample:
  "screenshot_history one_saved_state = [[0x41]]
   \<and> pending_prompt one_saved_state = Some demo_prompt
   \<and> screenshot_history (on_screenshot_taken one_saved_state [0x42]) = [[0x41]]
   \<and> filter is_start_thread (trace (on_screenshot_taken one_saved_state [0x42])) =
       [StartThread [[0x41], [0x42]] demo_prompt ''Gemini'']"
  by (simp add: one_saved_state_def saved_state_def on_screenshot_taken_def
      process_prompt_with_screenshot_def trigger_prompt_def save_screenshot_to_history_def
      init_app_def demo_env_def demo_prompt_def demo_config_def get_provider_def
      close_selector_def Let_def)

text \<open>
  C8 (as the code has it). With a non-empty prompts list: when the stored index is out
  of range, \<open>send_current_prompt\<close> sets it to 0 in memory and in the configuration and
  goes on with the first prompt, and \<open>update_current_prompt_display\<close> sets it to 0 in
  memory and shows the first prompt; when the index is in range both use the prompt at
  that index and leave the index and the configuration as they are.
\<close>

theorem prompt_index_reset_when_out_of_range:
  assumes "get_prompts (config_manager s) \<noteq> []"
  shows "(\<not> index_in_range (current_prompt_index s) (get_prompts (config_manager s)) \<longrightarrow>
            current_prompt_index (snd (send_current_prompt e s)) = 0
          \<and> cfg_current_prompt_index (config_manager (snd (send_current_prompt e s))) = Some 0
          \<and> send_current_prompt e s =
              trigger_prompt e
                (perform [Log DEFAULT (PromptIndexReset
                                         (map_of (hd (get_prompts (config_manager s))) ''name''))]
                   (s\<lparr>current_prompt_index := 0,
                      config_manager := (config_manager s)\<lparr>cfg_current_prompt_index := Some 0\<rparr>\<rparr>))
                (hd (get_prompts (config_manager s)))
          \<and> current_prompt_index (update_current_prompt_display s) = 0
          \<and> trace (update_current_prompt_display s) =
              trace s @
              [SetPromptLabel
                 (if hd (get_prompts (config_manager s)) \<noteq> []
                  then LabelCurrentPrompt 1 (map_of (hd (get_prompts (config_manager s))) ''name'')
                  else LabelNoPrompts)])
       \<and> (index_in_range (current_prompt_index s) (get_prompts (config_manager s)) \<longrightarrow>
            current_prompt_index (snd (send_current_prompt e s)) = current_prompt_index s
          \<and> config_manager (snd (send_current_prompt e s)) = config_manager s
          \<and> send_current_prompt e s =
              trigger_prompt e
                (perform [Log DEFAULT (SendingPrompt (current_prompt_index s + 1)
                            (map_of (get_prompts (config_manager s) ! nat (current_prompt_index s))
                               ''name''))] s)
                (get_prompts (config_manager s) ! nat (current_prompt_index s))
          \<and> update_current_prompt_display s =
              perform [SetPromptLabel
                         (LabelCurrentPrompt (current_prompt_index s + 1)
                            (map_of (get_prompts (config_manager s) ! nat (current_prompt_index s))
                               ''name''))] s)"
  using assms
  by (simp add: send_current_prompt_def update_current_prompt_display_def Let_def hd_conv_nth)

text \<open>
  C8, instances: with two prompts and the stored index 7 the index becomes 0 in memory
  and in the configuration and the first prompt is sent; with the stored index 0 it
  stays 0.
\<close>

theorem prompt_index_reset_when_out_of_range_witness:
  "get_prompts (config_manager stale_index_state) \<noteq> []
   \<and> \<not> index_in_range (current_prompt_index stale_index_state)
         (get_prompts (config_manager stale_index_state))
   \<and> current_prompt_index (snd (send_current_prompt demo_env stale_index_state)) = 0
   \<and> cfg_current_prompt_index
         (config_manager (snd (send_current_prompt demo_env stale_index_state))) = Some 0
   \<and> pending_prompt (snd (send_current_prompt demo_env stale_index_state)) = Some demo_prompt
   \<and> index_in_range (current_prompt_index (init_app demo_config))
         (get_prompts (config_manager (init_app demo_config)))
   \<and> current_prompt_index (snd (send_current_prompt demo_env (init_app demo_config))) = 0"
proof -
  have a: "get_prompts (config_manager stale_index_state) \<noteq> []"
    by (simp add: stale_index_state_def init_app_def demo_config_def get_prompts_def)
  have b: "\<not> index_in_range (current_prompt_index stale_index_state)
         (get_prompts (config_manager stale_index_state))"
    by (simp add: stale_index_state_def init_app_def demo_config_def get_prompts_def
        index_in_range_def)
  have c: "get_prompts (config_manager (init_app demo_config)) \<noteq> []"
    by (simp add: init_app_def demo_config_def get_prompts_def)
  have d: "index_in_range (current_prompt_index (init_app demo_config))
         (get_prompts (config_manager (init_app demo_config)))"
    by (simp add: init_app_def demo_config_def get_prompts_def index_in_range_def)
  have p: "pending_prompt (snd (send_current_prompt demo_env stale_index_state)) =
           Some demo_prompt"
    by (simp add: send_current_prompt_def stale_index_state_def init_app_def demo_config_def
        get_prompts_def index_in_range_def trigger_prompt_def demo_env_def demo_prompt_def Let_def)
  show ?thesis
    using a b c d p
      prompt_index_reset_when_out_of_range [OF a, of demo_env]
      prompt_index_reset_when_out_of_range [OF c, of demo_env]
    by (simp add: init_app_def demo_config_def)
qed

text \<open>
  C8 as stated fails. With an empty prompts list and the stored index 5, which is
  outside the (empty) range, neither method resets the index and no prompt is used. With
  two prompts and the stored index 7, \<open>update_current_prompt_display\<close> resets the index in
  memory while the configuration still holds 7.
\<close>

theorem index_not_reset_counterexample:
  "\<not> index_in_range (current_prompt_index no_prompts_state)
        (get_prompts (config_manager no_prompts_state))
   \<and> current_prompt_index (snd (send_current_prompt demo_env no_prompts_state)) = 5
   \<and> cfg_current_prompt_index
         (config_manager (snd (send_current_prompt demo_env no_prompts_state))) = Some 5
   \<and> pending_prompt (snd (send_current_prompt demo_env no_prompts_state)) = None
   \<and> current_prompt_index (update_current_prompt_display no_prompts_state) = 5
   \<and> \<not> index_in_range (current_prompt_index stale_index_state)
        (get_prompts (config_manager stale_index_state))
   \<and> current_prompt_index (update_current_prompt_display stale_index_state) = 0
   \<and> cfg_current_prompt_index (config_manager (update_current_prompt_display stale_index_state)) =
       Some 7"
  by (simp add: no_prompts_state_def stale_index_state_def send_current_prompt_def
      update_current_prompt_display_def index_in_range_def get_prompts_def init_app_def
      demo_config_def Let_def)

text \<open>
  C9. After either way of clearing (the hotkey's \<open>clear_screenshot_history\<close>, the timer's
  \<open>_cleanup_screenshot_history\<close>) the history is empty, so clearing again changes nothing
  of it. On a history that is already empty the timer's method does nothing at all, and
  the hotkey's method leaves the whole state as it is but for one log line saying that
  there is nothing to clear: no signal is emitted, no clearing report is logged, and no
  exception is raised (both models are total and return a plain state).
\<close>

theorem clear_history_idempotent:
  "screenshot_history (clear_screenshot_history s) = []
   \<and> screenshot_history (cleanup_screenshot_history s) = []
   \<and> screenshot_history (clear_screenshot_history (clear_screenshot_history s)) =
       screenshot_history (clear_screenshot_history s)
   \<and> cleanup_screenshot_history (cleanup_screenshot_history s) = cleanup_screenshot_history s
   \<and> (screenshot_history s = [] \<longrightarrow>
        cleanup_screenshot_history s = s
      \<and> clear_screenshot_history s =
          s\<lparr>trace := trace s @ [Log DEFAULT HistoryEmptyNothingToClear]\<rparr>
      \<and> filter is_emit (trace (clear_screenshot_history s)) = filter is_emit (trace s)
      \<and> filter is_clear_report (trace (clear_screenshot_history s)) =
          filter is_clear_report (trace s))"
  by (simp add: clear_screenshot_history_def cleanup_screenshot_history_def perform_def)

text \<open>
  C9, an instance: in the start state the history is empty; clearing it leaves it empty
  and emits nothing.
\<close>

theorem clear_history_idempotent_witness:
  "screenshot_history (init_app demo_config) = []
   \<and> cleanup_screenshot_history (init_app demo_config) = init_app demo_config
   \<and> screenshot_history (clear_screenshot_history (init_app demo_config)) = []
   \<and> filter is_emit (trace (clear_screenshot_history (init_app demo_config))) = []"
  using clear_history_idempotent [of "init_app demo_config"]
  by (simp add: init_app_def)

text \<open>
  C10. One toggle stores the other provider: GPT for Gemini, and Gemini for GPT and
  for every other value. Two toggles give back a provider that was Gemini or GPT. A
  provider outside the two is mapped to Gemini by one toggle and to GPT by two, so two
  toggles do not give it back.
\<close>

theorem toggle_provider_involution:
  "cfg_provider (config_manager (snd (handle_toggle_provider e s))) =
     Some (toggled (get_provider (config_manager s)))
   \<and> (get_provider (config_manager s) = ''Gemini'' \<longrightarrow>
        get_provider (config_manager (snd (handle_toggle_provider e s))) = ''GPT'')
   \<and> (get_provider (config_manager s) = ''GPT'' \<longrightarrow>
        get_provider (config_manager (snd (handle_toggle_provider e s))) = ''Gemini'')
   \<and> (get_provider (config_manager s) \<in> {''Gemini'', ''GPT''} \<longrightarrow>
        get_provider
          (config_manager (snd (handle_toggle_provider e' (snd (handle_toggle_provider e s))))) =
          get_provider (config_manager s))
   \<and> (get_provider (config_manager s) \<noteq> ''Gemini'' \<longrightarrow>
        get_provider (config_manager (snd (handle_toggle_provider e s))) = ''Gemini'')
   \<and> (get_provider (config_manager s) \<notin> {''Gemini'', ''GPT''} \<longrightarrow>
        get_provider
          (config_manager (snd (handle_toggle_provider e' (snd (handle_toggle_provider e s))))) =
          ''GPT''
      \<and> get_provider
          (config_manager (snd (handle_toggle_provider e' (snd (handle_toggle_provider e s))))) \<noteq>
          get_provider (config_manager s))"
  by (auto simp: toggle_provider_config get_provider_def toggled_def split: option.splits)

text \<open>
  C10, instances: from Gemini one toggle gives GPT, and from that GPT the next toggle
  gives Gemini again; from the value Claude one toggle gives Gemini and two give GPT.
\<close>

theorem toggle_provider_involution_witness:
  "get_provider (config_manager (init_app demo_config)) = ''Gemini''
   \<and> get_provider
       (config_manager (snd (handle_toggle_provider demo_env (init_app demo_config)))) =
       ''GPT''
   \<and> get_provider (config_manager (snd (handle_toggle_provider demo_env
        (snd (handle_toggle_provider demo_env (init_app demo_config)))))) = ''Gemini''
   \<and> get_provider (config_manager claude_state) \<notin> {''Gemini'', ''GPT''}
   \<and> get_provider (config_manager (snd (handle_toggle_provider demo_env claude_state))) = ''Gemini''
   \<and> get_provider (config_manager (snd (handle_toggle_provider demo_env
        (snd (handle_toggle_provider demo_env claude_state))))) = ''GPT''"
proof -
  have g: "get_provider (config_manager (init_app demo_config)) = ''Gemini''"
    by (simp add: init_app_def demo_config_def get_provider_def)
  have c: "get_provider (config_manager claude_state) \<notin> {''Gemini'', ''GPT''}"
    by (simp add: claude_state_def init_app_def demo_config_def get_provider_def)
  have t: "get_provider
             (config_manager (snd (handle_toggle_provider demo_env (init_app demo_config)))) =
           ''GPT''"
    using g toggle_provider_involution [of demo_env "init_app demo_config" demo_env] by simp
  show ?thesis
    using g c t
      toggle_provider_involution
        [of demo_env "snd (handle_toggle_provider demo_env (init_app demo_config))" demo_env]
      toggle_provider_involution [of demo_env claude_state demo_env]
    by simp
qed

end
